theory Spec2Isabelle
  imports Complex_Main "HOL-Library.Sublist"
begin

section \<open>The asset registry: class StoryboardFiles\<close>

text \<open>
  The registry keeps two dictionaries from scene number to file path and two card
  slots. Scene numbers are Python integers, paths are strings. A dictionary is a
  partial map; \<open>dict.get(k)\<close> is application of the map.
\<close>

type_synonym path = string

record StoryboardFiles =
  images :: "int \<rightharpoonup> path"
  audio :: "int \<rightharpoonup> path"
  title_card :: "path option"
  end_card :: "path option"

definition reset :: "StoryboardFiles \<Rightarrow> StoryboardFiles" where
  "reset self =
     self\<lparr>images := Map.empty, audio := Map.empty, title_card := None, end_card := None\<rparr>"

definition add_image :: "StoryboardFiles \<Rightarrow> int \<Rightarrow> path \<Rightarrow> StoryboardFiles" where
  "add_image self scene_number p = self\<lparr>images := (images self)(scene_number \<mapsto> p)\<rparr>"

definition add_audio :: "StoryboardFiles \<Rightarrow> int \<Rightarrow> path \<Rightarrow> StoryboardFiles" where
  "add_audio self scene_number p = self\<lparr>audio := (audio self)(scene_number \<mapsto> p)\<rparr>"

definition get_image :: "StoryboardFiles \<Rightarrow> int \<Rightarrow> path option" where
  "get_image self scene_number = images self scene_number"

definition get_audio :: "StoryboardFiles \<Rightarrow> int \<Rightarrow> path option" where
  "get_audio self scene_number = audio self scene_number"

section \<open>Python strings\<close>

text \<open>
  A string is a list of characters (bytes). \<open>str.lower\<close> is modelled on the ASCII
  letters, character by character; \<open>a in b\<close> on strings is the contiguous-sublist test
  \<^const>\<open>sublist\<close>; \<open>str.endswith\<close> is \<^const>\<open>suffix\<close>.
\<close>

definition lower_char :: "char \<Rightarrow> char" where
  "lower_char c =
     (let n = (of_char c :: nat) in if 65 \<le> n \<and> n \<le> 90 then char_of (n + 32) else c)"

definition lower :: "string \<Rightarrow> string" where
  "lower s = map lower_char s"

fun str_nat :: "nat \<Rightarrow> string" where
  "str_nat n =
     (if n < 10 then [char_of (48 + n)] else str_nat (n div 10) @ [char_of (48 + n mod 10)])"

declare str_nat.simps [simp del]

definition str_int :: "int \<Rightarrow> string" where
  "str_int i = (if i < 0 then ''-'' @ str_nat (nat (- i)) else str_nat (nat i))"

text \<open>\<open>urllib.parse.quote\<close> with its default \<open>safe='/'\<close>.\<close>

definition hex_digit :: "nat \<Rightarrow> char" where
  "hex_digit d = (if d < 10 then char_of (48 + d) else char_of (55 + d))"

definition always_safe :: "char \<Rightarrow> bool" where
  "always_safe c =
     (let n = (of_char c :: nat) in
        (65 \<le> n \<and> n \<le> 90) \<or> (97 \<le> n \<and> n \<le> 122) \<or> (48 \<le> n \<and> n \<le> 57)
        \<or> c = CHR ''_'' \<or> c = CHR ''.'' \<or> c = CHR ''-'' \<or> c = CHR ''~'' \<or> c = CHR ''/'')"

definition quote_char :: "char \<Rightarrow> string" where
  "quote_char c =
     (if always_safe c then [c]
      else [CHR ''%'', hex_digit (of_char c div 16), hex_digit (of_char c mod 16)])"

definition quote :: "string \<Rightarrow> string" where
  "quote s = concat (map quote_char s)"

section \<open>The story document\<close>

text \<open>
  The parsed JSON document is a dictionary read with \<open>.get(key, default)\<close> throughout,
  so every key of the schema is optional here: \<open>None\<close> is an absent key. Values that
  are present have the type the schema gives them.
\<close>

record visual_bible =
  art_style :: "string option"
  color_palette :: "string option"
  main_character :: "string option"
  secondary_characters :: "string option"
  world_setting :: "string option"

record scene =
  scene_number :: "int option"
  description :: "string option"
  visual_prompt :: "string option"
  narration :: "string option"
  camera_angle :: "string option"
  mood :: "string option"
  style_reference :: "string option"

record story_data =
  title :: "string option"
  visual_bible :: "visual_bible option"
  scenes :: "scene list option"

text \<open>\<open>d.get(key, default)\<close> on an optional entry.\<close>

definition get_or :: "'a option \<Rightarrow> 'a \<Rightarrow> 'a" where
  "get_or entry dflt = (case entry of None \<Rightarrow> dflt | Some v \<Rightarrow> v)"

definition empty_dict :: visual_bible where
  "empty_dict = \<lparr>art_style = None, color_palette = None, main_character = None,
                  secondary_characters = None, world_setting = None\<rparr>"

text \<open>The three values \<open>enhance_visual_prompts\<close> reads from the visual bible.\<close>

definition bible_art_style :: "story_data \<Rightarrow> string" where
  "bible_art_style story =
     get_or (art_style (get_or (visual_bible story) empty_dict)) ''digital art, cinematic''"

definition bible_color_palette :: "story_data \<Rightarrow> string" where
  "bible_color_palette story =
     get_or (color_palette (get_or (visual_bible story) empty_dict)) ''vibrant colors''"

definition bible_main_character :: "story_data \<Rightarrow> string" where
  "bible_main_character story =
     get_or (main_character (get_or (visual_bible story) empty_dict)) []"

text \<open>The body of the loop over the scenes.\<close>

definition enhance_scene :: "string \<Rightarrow> string \<Rightarrow> scene \<Rightarrow> scene" where
  "enhance_scene main_char consistency_prefix sc =
     (let original_prompt = get_or (visual_prompt sc) [];
          enhanced_prompt =
            (if main_char \<noteq> [] \<and> \<not> sublist (lower main_char) (lower original_prompt)
             then main_char @ '', '' @ original_prompt
             else original_prompt)
      in sc\<lparr>visual_prompt :=
               Some (enhanced_prompt @ '', '' @ consistency_prefix
                     @ '', consistent character design''),
             style_reference := Some consistency_prefix\<rparr>)"

definition enhance_visual_prompts :: "story_data \<Rightarrow> story_data" where
  "enhance_visual_prompts story =
     (let consistency_prefix = bible_art_style story @ '', '' @ bible_color_palette story
      in story\<lparr>scenes :=
                  map_option (map (enhance_scene (bible_main_character story) consistency_prefix))
                    (scenes story)\<rparr>)"

text \<open>\<open>story_data.get("scenes", [])\<close>\<close>

definition scenes_of :: "story_data \<Rightarrow> scene list" where
  "scenes_of story = get_or (scenes story) []"

text \<open>Truth value of a dictionary: false exactly for the empty one.\<close>

definition dict_truthy :: "story_data \<Rightarrow> bool" where
  "dict_truthy story =
     (title story \<noteq> None \<or> visual_bible story \<noteq> None \<or> scenes story \<noteq> None)"

section \<open>The outside world\<close>

text \<open>
  Everything the program does not compute itself is an answer of the environment:
  the text-generation service, the image service, the speech service, the video
  library and the outcome of every write to disk. An answer that is an exception
  is a value. The mutable state is the global registry \<open>files\<close>, the files on disk
  (absolute path to size in bytes) and the list of image URLs requested so far.
  Pixels and sound are not modelled; durations are exact rationals.
\<close>

datatype exn = SaveError path

datatype write_outcome = WriteRaises | WriteOK nat | WriteNothing

record response =
  status_code :: int
  content_decodes :: bool

record clip =
  clip_image :: path
  duration :: rat
  clip_audio :: "path option"

record env =
  cwd :: "string list"
  hash :: "string \<Rightarrow> int"
  completion :: "string \<Rightarrow> int \<Rightarrow> story_data option"
  requests_get :: "string \<Rightarrow> response option"
  image_save :: "path \<Rightarrow> write_outcome"
  placeholder_save :: "path \<Rightarrow> write_outcome"
  card_save :: "path \<Rightarrow> write_outcome"
  tts_save :: "string \<Rightarrow> string \<Rightarrow> path \<Rightarrow> write_outcome"
  ImageClip_loads :: "path \<Rightarrow> bool"
  AudioFileClip_duration :: "path \<Rightarrow> rat option"
  set_audio_ok :: "path \<Rightarrow> path \<Rightarrow> bool"
  write_videofile :: "clip list \<Rightarrow> write_outcome"

record world =
  files :: StoryboardFiles
  fs :: "path \<rightharpoonup> nat"
  requested :: "string list"

text \<open>
  \<open>os.path.abspath\<close>: an absolute path is kept, a relative one is joined to the
  working directory, given by its components (the file names of this program need no
  normalisation). \<open>os.path.exists\<close> looks the absolute path up on disk.
\<close>

definition isabs :: "path \<Rightarrow> bool" where
  "isabs p = (case p of [] \<Rightarrow> False | c # _ \<Rightarrow> c = CHR ''/'')"

definition abspath :: "env \<Rightarrow> path \<Rightarrow> path" where
  "abspath e p =
     (if isabs p then p else concat (map (\<lambda>d. ''/'' @ d) (cwd e)) @ ''/'' @ p)"

definition exists :: "env \<Rightarrow> world \<Rightarrow> path \<Rightarrow> bool" where
  "exists e w p = (fs w (abspath e p) \<noteq> None)"

text \<open>
  A write to \<open>p\<close> either raises, or returns after writing \<open>n\<close> bytes, or returns
  without leaving a file of its own (an older file at \<open>p\<close> stays).
\<close>

definition write_file :: "env \<Rightarrow> write_outcome \<Rightarrow> path \<Rightarrow> world \<Rightarrow> exn option \<times> world" where
  "write_file e out p w =
     (case out of
        WriteRaises \<Rightarrow> (Some (SaveError p), w)
      | WriteOK n \<Rightarrow> (None, w\<lparr>fs := (fs w)(abspath e p \<mapsto> n)\<rparr>)
      | WriteNothing \<Rightarrow> (None, w))"

section \<open>Story generator\<close>

text \<open>
  \<open>completion\<close> is the \<open>try\<close> block up to \<open>json.loads\<close>: \<open>None\<close> when the service
  call, the fence stripping or the parser raised. The \<open>except\<close> clause turns that
  into the result \<open>None\<close>.
\<close>

definition generate_consistent_story :: "env \<Rightarrow> string \<Rightarrow> int \<Rightarrow> story_data option" where
  "generate_consistent_story e user_prompt num_scenes =
     (case completion e user_prompt num_scenes of
        None \<Rightarrow> None
      | Some story \<Rightarrow> Some (enhance_visual_prompts story))"

section \<open>Image generator\<close>

definition consistency_keywords :: string where
  "consistency_keywords =
     ''consistent character design, same art style, high quality, detailed, 4k''"

definition url_without_seed :: "string \<Rightarrow> string" where
  "url_without_seed encoded_prompt =
     ''https://image.pollinations.ai/prompt/'' @ encoded_prompt
     @ ''?width=1024&height=576&nologo=true''"

definition url_with_seed :: "string \<Rightarrow> int \<Rightarrow> string" where
  "url_with_seed encoded_prompt seed =
     ''https://image.pollinations.ai/prompt/'' @ encoded_prompt
     @ ''?width=1024&height=576&seed='' @ str_int seed @ ''&nologo=true''"

text \<open>\<open>if seed:\<close> is false for \<open>None\<close> and for \<open>0\<close>.\<close>

definition image_url :: "string \<Rightarrow> int option \<Rightarrow> string" where
  "image_url prompt seed =
     (let enhanced_prompt = prompt @ '', '' @ consistency_keywords;
          encoded_prompt = quote enhanced_prompt
      in case seed of
           None \<Rightarrow> url_without_seed encoded_prompt
         | Some s \<Rightarrow> if s \<noteq> 0 then url_with_seed encoded_prompt s
                     else url_without_seed encoded_prompt)"

definition scene_file :: "int \<Rightarrow> path" where
  "scene_file scene_num = ''scene_'' @ str_int scene_num @ ''.png''"

text \<open>
  \<open>create_placeholder\<close>: the drawing is in memory; \<open>img.save\<close> is outside any
  \<open>try\<close>, so its exception leaves the function. The saved path is registered without
  a check that the file exists.
\<close>

definition create_placeholder :: "env \<Rightarrow> world \<Rightarrow> int \<Rightarrow> string \<Rightarrow> (exn + path) \<times> world" where
  "create_placeholder e w scene_num text =
     (let image_path = scene_file scene_num in
      case write_file e (placeholder_save e image_path) image_path w of
        (Some x, w1) \<Rightarrow> (Inl x, w1)
      | (None, w1) \<Rightarrow>
          (Inr (abspath e image_path),
           w1\<lparr>files := add_image (files w1) scene_num (abspath e image_path)\<rparr>))"

definition generate_image ::
  "env \<Rightarrow> world \<Rightarrow> string \<Rightarrow> int \<Rightarrow> string \<Rightarrow> int option \<Rightarrow> (exn + path) \<times> world" where
  "generate_image e w prompt scene_num style_ref seed =
     (let url = image_url prompt seed;
          image_path = scene_file scene_num;
          w1 = w\<lparr>requested := requested w @ [url]\<rparr>
      in case requests_get e url of
           None \<Rightarrow> create_placeholder e w1 scene_num prompt
         | Some r \<Rightarrow>
             if status_code r = 200 then
               if content_decodes r then
                 (case write_file e (image_save e image_path) image_path w1 of
                    (Some x, w2) \<Rightarrow> create_placeholder e w2 scene_num prompt
                  | (None, w2) \<Rightarrow>
                      if exists e w2 image_path then
                        (Inr (abspath e image_path),
                         w2\<lparr>files := add_image (files w2) scene_num (abspath e image_path)\<rparr>)
                      else create_placeholder e w2 scene_num prompt)
               else create_placeholder e w1 scene_num prompt
             else create_placeholder e w1 scene_num prompt)"

section \<open>Text to speech\<close>

definition narration_file :: "int \<Rightarrow> path" where
  "narration_file scene_num = ''narration_'' @ str_int scene_num @ ''.mp3''"

definition generate_audio ::
  "env \<Rightarrow> world \<Rightarrow> string \<Rightarrow> int \<Rightarrow> string \<Rightarrow> path option \<times> world" where
  "generate_audio e w text scene_num voice =
     (let audio_path = narration_file scene_num in
      case write_file e (tts_save e text voice audio_path) audio_path w of
        (Some x, w1) \<Rightarrow> (None, w1)
      | (None, w1) \<Rightarrow>
          if exists e w1 audio_path then
            (Some (abspath e audio_path),
             w1\<lparr>files := add_audio (files w1) scene_num (abspath e audio_path)\<rparr>)
          else (None, w1))"

section \<open>Video creator\<close>

text \<open>\<open>create_simple_image\<close> draws a card and saves it; the save is not guarded.\<close>

definition create_simple_image ::
  "env \<Rightarrow> world \<Rightarrow> (string \<times> bool) list \<Rightarrow> path \<Rightarrow> (exn + path) \<times> world" where
  "create_simple_image e w text_lines filename =
     (case write_file e (card_save e filename) filename w of
        (Some x, w1) \<Rightarrow> (Inl x, w1)
      | (None, w1) \<Rightarrow> (Inr filename, w1))"

text \<open>
  \<open>ImageClip(p)\<close> raises when there is no file at \<open>p\<close> or the library cannot read
  it. \<open>card_clip\<close> is the guarded \<open>ImageClip(img).set_duration(3)\<close> of the title and
  the end card: the clips it adds to \<open>all_clips\<close>.
\<close>

definition load_image :: "env \<Rightarrow> world \<Rightarrow> path \<Rightarrow> bool" where
  "load_image e w p = (exists e w p \<and> ImageClip_loads e (abspath e p))"

definition card_clip :: "env \<Rightarrow> world \<Rightarrow> path \<Rightarrow> clip list" where
  "card_clip e w img =
     (if load_image e w img then [\<lparr>clip_image = img, duration = 3, clip_audio = None\<rparr>]
      else [])"

text \<open>
  The audio of a scene: \<open>if audio_path and os.path.exists(audio_path)\<close>, then the
  guarded \<open>AudioFileClip(audio_path)\<close>; the result is the path with the duration of
  the audio, or \<open>None\<close> when there is no usable audio.
\<close>

definition load_audio :: "env \<Rightarrow> world \<Rightarrow> path option \<Rightarrow> (path \<times> rat) option" where
  "load_audio e w audio_path =
     (case audio_path of
        None \<Rightarrow> None
      | Some a \<Rightarrow>
          if a \<noteq> [] \<and> exists e w a then
            (case AudioFileClip_duration e (abspath e a) of
               None \<Rightarrow> None
             | Some d \<Rightarrow> Some (a, d))
          else None)"

text \<open>
  One round of the loop over the scenes: \<open>None\<close> when the round ends without
  appending a clip (the \<open>continue\<close>, or the \<open>except\<close> of the round).
\<close>

definition scene_clip :: "env \<Rightarrow> world \<Rightarrow> int \<Rightarrow> clip option" where
  "scene_clip e w scene_num =
     (case get_image (files w) scene_num of
        None \<Rightarrow> None
      | Some image_path \<Rightarrow>
          if image_path \<noteq> [] \<and> exists e w image_path then
            if load_image e w image_path then
              (case load_audio e w (get_audio (files w) scene_num) of
                 None \<Rightarrow> Some \<lparr>clip_image = image_path, duration = 5, clip_audio = None\<rparr>
               | Some (a, d) \<Rightarrow>
                   Some \<lparr>clip_image = image_path, duration = d + 1,
                         clip_audio = (if set_audio_ok e image_path a then Some a else None)\<rparr>)
            else None
          else None)"

fun scene_loop :: "env \<Rightarrow> world \<Rightarrow> int list \<Rightarrow> clip list \<Rightarrow> clip list" where
  "scene_loop e w [] all_clips = all_clips"
| "scene_loop e w (scene_num # rest) all_clips =
     (case scene_clip e w scene_num of
        None \<Rightarrow> scene_loop e w rest all_clips
      | Some c \<Rightarrow> scene_loop e w rest (all_clips @ [c]))"

text \<open>
  Step 4 of \<open>make_video_simple\<close>: the check on the number of clips, then the guarded
  concatenation and export, then the check that the output file exists.
\<close>

definition output_path :: path where
  "output_path = ''final_storyboard.mp4''"

definition export_video :: "env \<Rightarrow> world \<Rightarrow> clip list \<Rightarrow> path option \<times> world" where
  "export_video e w all_clips =
     (if length all_clips < 2 then (None, w)
      else
        case write_file e (write_videofile e all_clips) output_path w of
          (Some x, w1) \<Rightarrow> (None, w1)
        | (None, w1) \<Rightarrow>
            if exists e w1 output_path then (Some (abspath e output_path), w1)
            else (None, w1))"

definition make_video_simple ::
  "env \<Rightarrow> world \<Rightarrow> story_data \<Rightarrow> int \<Rightarrow> (exn + path option) \<times> world" where
  "make_video_simple e w story num_scenes =
     (let title_text = take 40 (get_or (title story) ''My Story'') in
      case create_simple_image e w
             [(title_text, True), (''AI Generated Storyboard'', False)] ''title_card.png'' of
        (Inl x, w1) \<Rightarrow> (Inl x, w1)
      | (Inr title_img, w1) \<Rightarrow>
          let all_clips = scene_loop e w1 [1..num_scenes] (card_clip e w1 title_img) in
          case create_simple_image e w1
                 [(''The End'', True), (''Created with AI Storyboard Generator'', False)]
                 ''end_card.png'' of
            (Inl x, w2) \<Rightarrow> (Inl x, w2)
          | (Inr end_img, w2) \<Rightarrow>
              (case export_video e w2 (all_clips @ card_clip e w2 end_img) of
                 (video_path, w3) \<Rightarrow> (Inr video_path, w3)))"

section \<open>Main generator\<close>

record results =
  status :: string
  story :: "story_data option"
  result_images :: "path option list"
  result_audio :: "path option list"
  video :: "path option"
  error :: "string option"

text \<open>Truth value of an optional document and of an optional path.\<close>

definition story_truthy :: "story_data option \<Rightarrow> bool" where
  "story_truthy r = (case r of None \<Rightarrow> False | Some d \<Rightarrow> dict_truthy d)"

definition path_truthy :: "path option \<Rightarrow> bool" where
  "path_truthy r = (case r of None \<Rightarrow> False | Some p \<Rightarrow> p \<noteq> [])"

text \<open>
  The two loops over \<open>enumerate(actual_scenes)\<close>. The scene number of a round is
  \<open>i + 1\<close>, the seed \<open>base_seed + i\<close>.
\<close>

fun image_loop ::
  "env \<Rightarrow> int \<Rightarrow> string \<Rightarrow> (nat \<times> scene) list \<Rightarrow> path option list \<Rightarrow> world
   \<Rightarrow> (exn + path option list) \<times> world" where
  "image_loop e base_seed style_ref [] imgs w = (Inr imgs, w)"
| "image_loop e base_seed style_ref ((i, sc) # rest) imgs w =
     (let scene_num = int i + 1;
          prompt = get_or (visual_prompt sc) (''Scene '' @ str_int scene_num);
          seed = base_seed + int i
      in case generate_image e w prompt scene_num style_ref (Some seed) of
           (Inl x, w1) \<Rightarrow> (Inl x, w1)
         | (Inr image_path, w1) \<Rightarrow>
             image_loop e base_seed style_ref rest (imgs @ [Some image_path]) w1)"

fun audio_loop ::
  "env \<Rightarrow> string \<Rightarrow> (nat \<times> scene) list \<Rightarrow> path option list \<Rightarrow> world
   \<Rightarrow> path option list \<times> world" where
  "audio_loop e voice [] auds w = (auds, w)"
| "audio_loop e voice ((i, sc) # rest) auds w =
     (let scene_num = int i + 1;
          narr = get_or (narration sc) []
      in if narr \<noteq> [] then
           (case generate_audio e w narr scene_num voice of
              (audio_path, w1) \<Rightarrow> audio_loop e voice rest (auds @ [audio_path]) w1)
         else audio_loop e voice rest (auds @ [None]) w)"

definition generate_storyboard ::
  "env \<Rightarrow> world \<Rightarrow> string \<Rightarrow> int \<Rightarrow> string \<Rightarrow> (exn + results) \<times> world" where
  "generate_storyboard e w0 story_idea num_scenes voice =
     (let w = w0\<lparr>files := reset (files w0)\<rparr>;
          res = \<lparr>status = ''processing'', story = None, result_images = [],
                 result_audio = [], video = None, error = None\<rparr>;
          story_d = generate_consistent_story e story_idea num_scenes
      in if \<not> story_truthy story_d then
           (Inr (res\<lparr>status := ''error'', error := Some ''Failed to generate story''\<rparr>), w)
         else
           case story_d of
             None \<Rightarrow>
               (Inr (res\<lparr>status := ''error'', error := Some ''Failed to generate story''\<rparr>), w)
           | Some d \<Rightarrow>
               let actual_scenes = scenes_of d;
                   bible = get_or (visual_bible d) empty_dict;
                   style_ref = get_or (art_style bible) [] @ '', ''
                               @ get_or (color_palette bible) [];
                   base_seed = hash e story_idea mod 100000
               in case image_loop e base_seed style_ref (enumerate 0 actual_scenes) [] w of
                    (Inl x, w1) \<Rightarrow> (Inl x, w1)
                  | (Inr imgs, w1) \<Rightarrow>
                      (case audio_loop e voice (enumerate 0 actual_scenes) [] w1 of
                         (auds, w2) \<Rightarrow>
                           (case make_video_simple e w2 d (int (length actual_scenes)) of
                              (Inl x, w3) \<Rightarrow> (Inl x, w3)
                            | (Inr video_path, w3) \<Rightarrow>
                                let res1 = res\<lparr>story := Some d, result_images := imgs,
                                               result_audio := auds, video := video_path\<rparr>
                                in if path_truthy video_path then
                                     (Inr (res1\<lparr>status := ''completed''\<rparr>), w3)
                                   else
                                     (Inr (res1\<lparr>status := ''partial'',
                                                error :=
                                                  Some ''Images generated but video creation failed''\<rparr>),
                                      w3))))"

section \<open>The registry after reset\<close>

text \<open>
  Claim C9. After \<open>reset\<close>, \<open>get_image n\<close> and \<open>get_audio n\<close> give the absence
  indicator for every scene number \<open>n\<close>, whatever the registry held before; in
  particular for a number that was populated by \<open>add_image\<close> or \<open>add_audio\<close> just
  before the reset. Resetting twice is the same as resetting once.
\<close>

theorem reset_clears_registry:
  "get_image (reset s) n = None
   \<and> get_audio (reset s) n = None
   \<and> get_image (reset (add_image s n p)) n = None
   \<and> get_audio (reset (add_audio s n p)) n = None
   \<and> reset (reset s) = reset s"
  by (simp add: reset_def get_image_def get_audio_def add_image_def add_audio_def)

end
